theory Spec2Isabelle
  imports Main "HOL-Library.AList" "HOL-Library.Sublist"
begin

section \<open>Values\<close>

text \<open>
  The values a form carries. A JavaScript object is an association list: \<open>map_of\<close> reads a
  property, \<open>AList.update\<close> assigns one (in place, or appended when the key is new) and the
  keys are \<open>map fst\<close>. An uploaded file is \<open>JFile\<close>, standing for any value with
  \<^verbatim>\<open>value instanceof File\<close>. The association list holds the own properties; the
  prototype of every object is \<^verbatim>\<open>Object.prototype\<close> with its standard members, and
  \<open>JInherited k\<close> is the member of that name: a function, and for \<^verbatim>\<open>__proto__\<close> the
  prototype itself.
\<close>

datatype jsval =
    JUndefined
  | JNull
  | JBool bool
  | JNum int
  | JStr string
  | JFile string
  | JInherited string
  | JArr "jsval list"
  | JObj "(string \<times> jsval) list"

type_synonym obj = "(string \<times> jsval) list"

definition object_prototype :: "string list" where
  "object_prototype =
     [''constructor'', ''__defineGetter__'', ''__defineSetter__'', ''hasOwnProperty'',
      ''__lookupGetter__'', ''__lookupSetter__'', ''isPrototypeOf'', ''propertyIsEnumerable'',
      ''toString'', ''valueOf'', ''__proto__'', ''toLocaleString'']"

text \<open>
  \<^verbatim>\<open>key in ob\<close> and \<^verbatim>\<open>ob[key]\<close> look at the own properties first and at the prototype
  next. \<^verbatim>\<open>ob[key] = v\<close> makes or changes an own property, but for the key \<^verbatim>\<open>__proto__\<close>
  of an object that has no own property of that name: there the inherited setter runs
  and no own property is made (the setter replaces the prototype when \<open>v\<close> is an object
  or \<^verbatim>\<open>null\<close>; what is then inherited is not held by the model).
\<close>

definition has_property :: "obj \<Rightarrow> string \<Rightarrow> bool" where
  "has_property ob k = (map_of ob k \<noteq> None \<or> k \<in> set object_prototype)"

definition get_property :: "obj \<Rightarrow> string \<Rightarrow> jsval" where
  "get_property ob k =
     (case map_of ob k of
        Some v \<Rightarrow> v
      | None \<Rightarrow> if k \<in> set object_prototype then JInherited k else JUndefined)"

definition set_property :: "string \<Rightarrow> jsval \<Rightarrow> obj \<Rightarrow> obj" where
  "set_property k v ob =
     (if k = ''__proto__'' \<and> map_of ob k = None then ob else AList.update k v ob)"

text \<open>
  \<^verbatim>\<open>ValidationErrors\<close>: an object whose properties are arrays of messages or objects of
  the same kind.
\<close>

datatype errtree = Leaf "string list" | Node "(string \<times> errtree) list"

type_synonym ValidationErrors = "(string \<times> errtree) list"

datatype SchemaShape = SchemaShape (entries: "(string \<times> SchemaShape) list")

text \<open>
  Of a JSON schema, \<^verbatim>\<open>superValidate\<close> reads \<^verbatim>\<open>additionalProperties\<close> (absent, a boolean
  or a schema) and the keys of \<^verbatim>\<open>properties\<close>.
\<close>

datatype JSONSchema7Definition =
    BoolSchema bool
  | ObjSchema "JSONSchema7Definition option" "(string \<times> JSONSchema7Definition) list option"

record JSONSchema =
  additionalProperties :: "JSONSchema7Definition option"
  properties :: "(string \<times> JSONSchema7Definition) list option"

section \<open>superValidate\<close>

subsection \<open>Types\<close>

text \<open>
  \<^verbatim>\<open>SuperValidated\<close>. The optional fields \<^verbatim>\<open>message\<close> and \<^verbatim>\<open>shape\<close> are \<open>None\<close> when the
  object has no such property. The fields of each record carry the record's name, since
  several of them share \<^verbatim>\<open>id\<close>, \<^verbatim>\<open>data\<close>, \<^verbatim>\<open>errors\<close> and \<^verbatim>\<open>shape\<close>.
\<close>

record 'c SuperValidated =
  form_id :: string
  form_valid :: bool
  form_posted :: bool
  form_errors :: ValidationErrors
  form_data :: obj
  form_constraints :: 'c
  form_message :: "jsval option"
  form_shape :: "SchemaShape option"

text \<open>\<^verbatim>\<open>SuperValidateOptions\<close>: every field is optional.\<close>

record SuperValidateOptions =
  opt_errors :: "bool option"
  opt_id :: "string option"
  opt_preprocessed :: "string list option"
  opt_defaults :: "obj option"
  opt_jsonSchema :: "JSONSchema option"
  opt_strict :: "bool option"
  opt_allowFiles :: "bool option"

text \<open>
  \<^verbatim>\<open>ValidationResult\<close>, as \<^verbatim>\<open>superValidate\<close> reads it: \<^verbatim>\<open>data\<close> when \<^verbatim>\<open>success\<close> is true,
  \<^verbatim>\<open>issues\<close> when it is false.
\<close>

datatype 'i ValidationResult = Success obj | Failure "'i list"

fun success :: "'i ValidationResult \<Rightarrow> bool" where
  "success (Success d) = True"
| "success (Failure is) = False"

record ('i, 'c) ValidationAdapter =
  adapter_superFormValidationLibrary :: string
  adapter_validate :: "obj \<Rightarrow> 'i ValidationResult"
  adapter_jsonSchema :: JSONSchema
  adapter_defaults :: obj
  adapter_constraints :: 'c
  adapter_shape :: SchemaShape
  adapter_id :: string

text \<open>What \<^verbatim>\<open>parseRequest\<close> returns: \<^verbatim>\<open>parsed.id\<close>, \<^verbatim>\<open>parsed.data\<close>, \<^verbatim>\<open>parsed.posted\<close>.\<close>

record ParsedData =
  parsed_id :: "string option"
  parsed_data :: "obj option"
  parsed_posted :: bool

text \<open>
  The functions \<^verbatim>\<open>superValidate\<close> imports from \<^verbatim>\<open>formData.js\<close> and \<^verbatim>\<open>errors.js\<close>. They are
  parameters: whatever \<^verbatim>\<open>superValidate\<close> is shown to do, it does for every such
  function. The request data \<open>'d\<close> (a request, form data, a URL or a plain object) is
  \<open>None\<close> when it is \<^verbatim>\<open>undefined\<close> or \<^verbatim>\<open>null\<close>.
\<close>

record ('d, 'i) helpers =
  parseRequest :: "'d option \<Rightarrow> JSONSchema \<Rightarrow> SuperValidateOptions option \<Rightarrow> ParsedData"
  mergeDefaults :: "obj option \<Rightarrow> obj \<Rightarrow> obj"
  mapErrors :: "'i list \<Rightarrow> SchemaShape \<Rightarrow> ValidationErrors"
  replaceInvalidDefaults ::
    "obj \<Rightarrow> obj \<Rightarrow> JSONSchema \<Rightarrow> 'i list \<Rightarrow> string list option \<Rightarrow> obj"

text \<open>
  The two overloads: \<^verbatim>\<open>superValidate(adapter, options?)\<close> and
  \<^verbatim>\<open>superValidate(data, adapter, options?)\<close>.
\<close>

datatype ('d, 'i, 'c) call =
    AdapterOnly "('i, 'c) ValidationAdapter" "SuperValidateOptions option"
  | WithData "'d option" "('i, 'c) ValidationAdapter" "SuperValidateOptions option"

subsection \<open>The function, constant by constant\<close>

text \<open>
  Lines 99 to 105: a first argument that is an adapter moves the arguments one place
  and leaves \<^verbatim>\<open>data\<close> undefined.
\<close>

fun data_of :: "('d, 'i, 'c) call \<Rightarrow> 'd option" where
  "data_of (AdapterOnly a opts) = None"
| "data_of (WithData d a opts) = d"

fun validator_of :: "('d, 'i, 'c) call \<Rightarrow> ('i, 'c) ValidationAdapter" where
  "validator_of (AdapterOnly a opts) = a"
| "validator_of (WithData d a opts) = a"

fun options_of :: "('d, 'i, 'c) call \<Rightarrow> SuperValidateOptions option" where
  "options_of (AdapterOnly a opts) = opts"
| "options_of (WithData d a opts) = opts"

text \<open>\<^verbatim>\<open>options?.f\<close> and \<^verbatim>\<open>a ?? b\<close>.\<close>

definition field :: "'o option \<Rightarrow> ('o \<Rightarrow> 'a option) \<Rightarrow> 'a option" where
  "field options f = (case options of None \<Rightarrow> None | Some o' \<Rightarrow> f o')"

definition nullish :: "'a option \<Rightarrow> 'a \<Rightarrow> 'a" where
  "nullish a b = (case a of None \<Rightarrow> b | Some v \<Rightarrow> v)"

definition strict :: "('d, 'i, 'c) call \<Rightarrow> bool" where
  "strict c = (field (options_of c) opt_strict = Some True)"

definition defaults :: "('d, 'i, 'c) call \<Rightarrow> obj" where
  "defaults c = nullish (field (options_of c) opt_defaults) (adapter_defaults (validator_of c))"

definition jsonSchema :: "('d, 'i, 'c) call \<Rightarrow> JSONSchema" where
  "jsonSchema c = adapter_jsonSchema (validator_of c)"

definition parsed :: "('d, 'i) helpers \<Rightarrow> ('d, 'i, 'c) call \<Rightarrow> ParsedData" where
  "parsed h c = parseRequest h (data_of c) (jsonSchema c) (options_of c)"

definition addErrors :: "('d, 'i) helpers \<Rightarrow> ('d, 'i, 'c) call \<Rightarrow> bool" where
  "addErrors h c =
     nullish (field (options_of c) opt_errors)
       (if strict c then True else parsed_data (parsed h c) \<noteq> None)"

definition parsedData :: "('d, 'i) helpers \<Rightarrow> ('d, 'i, 'c) call \<Rightarrow> obj" where
  "parsedData h c =
     (if strict c then nullish (parsed_data (parsed h c)) []
      else mergeDefaults h (parsed_data (parsed h c)) (defaults c))"

text \<open>
  Lines 116 to 122. Beside the status stands the list of the arguments
  \<^verbatim>\<open>validator.validate\<close> was called with, in order: the one effect of the function that
  its result does not show. A call returns its result and leaves its argument in that
  list.
\<close>

definition validate_call ::
  "('i, 'c) ValidationAdapter \<Rightarrow> obj \<Rightarrow> 'i ValidationResult \<times> obj list" where
  "validate_call a x = (adapter_validate a x, [x])"

definition status :: "('d, 'i) helpers \<Rightarrow> ('d, 'i, 'c) call \<Rightarrow> 'i ValidationResult \<times> obj list" where
  "status h c =
     (if parsed_data (parsed h c) \<noteq> None \<or> addErrors h c
      then validate_call (validator_of c) (parsedData h c)
      else (Failure [], []))"

definition valid :: "('d, 'i) helpers \<Rightarrow> ('d, 'i, 'c) call \<Rightarrow> bool" where
  "valid h c = success (fst (status h c))"

definition errors :: "('d, 'i) helpers \<Rightarrow> ('d, 'i, 'c) call \<Rightarrow> ValidationErrors" where
  "errors h c =
     (case fst (status h c) of
        Success d \<Rightarrow> []
      | Failure issues \<Rightarrow>
          if \<not> addErrors h c then []
          else mapErrors h issues (adapter_shape (validator_of c)))"

definition dataWithDefaults :: "('d, 'i) helpers \<Rightarrow> ('d, 'i, 'c) call \<Rightarrow> obj" where
  "dataWithDefaults h c =
     (case fst (status h c) of
        Success d \<Rightarrow> d
      | Failure issues \<Rightarrow>
          replaceInvalidDefaults h
            (if strict c then mergeDefaults h (Some (parsedData h c)) (defaults c)
             else parsedData h c)
            (defaults c) (jsonSchema c) issues (field (options_of c) opt_preprocessed))"

text \<open>
  Lines 139 to 148. The loop over \<^verbatim>\<open>Object.keys(jsonSchema.properties ?? {})\<close> is a fold
  from the empty object. Line 144 tests with \<^verbatim>\<open>in\<close> and reads with \<^verbatim>\<open>[key]\<close>, so a
  declared key that the data does not hold itself but inherits (\<^verbatim>\<open>constructor\<close>,
  \<^verbatim>\<open>toString\<close>, ...) is copied with the inherited member.
\<close>

definition strip_step :: "obj \<Rightarrow> obj \<Rightarrow> string \<Rightarrow> obj" where
  "strip_step source out k =
     (if has_property source k then set_property k (get_property source k) out else out)"

definition outputData :: "('d, 'i) helpers \<Rightarrow> ('d, 'i, 'c) call \<Rightarrow> obj" where
  "outputData h c =
     (if additionalProperties (jsonSchema c) = Some (BoolSchema False)
      then foldl (strip_step (dataWithDefaults h c)) []
             (map fst (nullish (properties (jsonSchema c)) []))
      else dataWithDefaults h c)"

definition superValidate ::
  "('d, 'i) helpers \<Rightarrow> ('d, 'i, 'c) call \<Rightarrow> 'c SuperValidated \<times> obj list" where
  "superValidate h c =
     (\<lparr> form_id =
          nullish (parsed_id (parsed h c))
            (nullish (field (options_of c) opt_id) (adapter_id (validator_of c))),
        form_valid = valid h c,
        form_posted = parsed_posted (parsed h c),
        form_errors = errors h c,
        form_data = outputData h c,
        form_constraints = adapter_constraints (validator_of c),
        form_message = None,
        form_shape =
          (if entries (adapter_shape (validator_of c)) \<noteq> []
           then Some (adapter_shape (validator_of c)) else None) \<rparr>,
      snd (status h c))"

section \<open>removeFiles and fail\<close>

fun isFile :: "jsval \<Rightarrow> bool" where
  "isFile (JFile name) = True"
| "isFile v = False"

text \<open>
  \<^verbatim>\<open>removeFiles\<close> walks the properties of an object: a property holding a file is deleted,
  any other object is walked in turn, and the object is handed back. On an array
  \<^verbatim>\<open>delete\<close> leaves a hole, which reads as \<^verbatim>\<open>undefined\<close> and is modelled as \<open>JUndefined\<close>.
  A value that is no object is returned as it is, and so are \<^verbatim>\<open>null\<close>, a file itself
  and the members of \<^verbatim>\<open>Object.prototype\<close>, which have no enumerable property.
\<close>

fun removeFiles :: "jsval \<Rightarrow> jsval"
  and removeFiles_props :: "(string \<times> jsval) list \<Rightarrow> (string \<times> jsval) list"
  and removeFiles_elems :: "jsval list \<Rightarrow> jsval list" where
  "removeFiles (JObj ps) = JObj (removeFiles_props ps)"
| "removeFiles (JArr xs) = JArr (removeFiles_elems xs)"
| "removeFiles v = v"
| "removeFiles_props [] = []"
| "removeFiles_props ((k, v) # ps) =
     (if isFile v then removeFiles_props ps else (k, removeFiles v) # removeFiles_props ps)"
| "removeFiles_elems [] = []"
| "removeFiles_elems (v # xs) =
     (if isFile v then JUndefined else removeFiles v) # removeFiles_elems xs"

text \<open>
  The payload \<^verbatim>\<open>{ form }\<close>. Of the properties of a form, \<^verbatim>\<open>data\<close> and \<^verbatim>\<open>message\<close> can
  hold files; the others hold strings, booleans and objects of such, which
  \<^verbatim>\<open>removeFiles\<close> walks and leaves as they are.
\<close>

record 'c payload =
  form :: "'c SuperValidated"

definition removeFiles_form :: "'c SuperValidated \<Rightarrow> 'c SuperValidated" where
  "removeFiles_form f =
     f \<lparr> form_data := removeFiles_props (form_data f),
         form_message :=
           (case form_message f of
              None \<Rightarrow> None
            | Some m \<Rightarrow> if isFile m then None else Some (removeFiles m)) \<rparr>"

definition removeFiles_payload :: "'c payload \<Rightarrow> 'c payload" where
  "removeFiles_payload p = \<lparr> form = removeFiles_form (form p) \<rparr>"

text \<open>\<^verbatim>\<open>fail\<close> of the web framework pairs a status with the data.\<close>

record 'p ActionFailure =
  failure_status :: int
  failure_data :: 'p

definition realFail :: "int \<Rightarrow> 'p \<Rightarrow> 'p ActionFailure" where
  "realFail st d = \<lparr> failure_status = st, failure_data = d \<rparr>"

text \<open>
  \<^verbatim>\<open>failAndRemoveFiles\<close> is called with the payload \<^verbatim>\<open>{ form }\<close>, an object, so its test
  \<^verbatim>\<open>if (params[1])\<close> holds.
\<close>

definition failAndRemoveFiles :: "int \<Rightarrow> 'c payload \<Rightarrow> 'c payload ActionFailure" where
  "failAndRemoveFiles st d = realFail st (removeFiles_payload d)"

section \<open>message\<close>

record message_options =
  msg_status :: "int option"
  msg_removeFiles :: "bool option"

datatype 'c message_result = Plain "'c payload" | Failed "'c payload ActionFailure"

text \<open>A number is truthy when it is not zero.\<close>

definition message ::
  "'c SuperValidated \<Rightarrow> jsval \<Rightarrow> message_options option \<Rightarrow> 'c message_result" where
  "message form0 msg options =
     (let form1 =
            (case field options msg_status of
               None \<Rightarrow> form0
             | Some st \<Rightarrow> if st \<noteq> 0 \<and> st \<ge> 400 then form0 \<lparr> form_valid := False \<rparr> else form0);
          form2 = form1 \<lparr> form_message := Some msg \<rparr>;
          remove = (field options msg_removeFiles \<noteq> Some False)
      in if form_valid form2
         then Plain (if remove then removeFiles_payload \<lparr> form = form2 \<rparr> else \<lparr> form = form2 \<rparr>)
         else Failed ((if remove then failAndRemoveFiles else realFail)
                       (nullish (field options msg_status) 400) \<lparr> form = form2 \<rparr>))"

section \<open>setError\<close>

record SetErrorOptions =
  se_overwrite :: "bool option"
  se_status :: "int option"
  se_removeFiles :: "bool option"

text \<open>\<^verbatim>\<open>string | string[]\<close>, and the two overloads of \<^verbatim>\<open>setError\<close>.\<close>

datatype messages = One string | Many "string list"

datatype setError_call =
    FormLevel messages "SetErrorOptions option"
  | FieldLevel string messages "SetErrorOptions option"

text \<open>
  Lines 240 to 244: without a path the arguments move one place and the path is the
  empty string.
\<close>

fun path_of :: "setError_call \<Rightarrow> string" where
  "path_of (FormLevel e opts) = []"
| "path_of (FieldLevel p e opts) = p"

fun error_of :: "setError_call \<Rightarrow> messages" where
  "error_of (FormLevel e opts) = e"
| "error_of (FieldLevel p e opts) = e"

fun se_options_of :: "setError_call \<Rightarrow> SetErrorOptions option" where
  "se_options_of (FormLevel e opts) = opts"
| "se_options_of (FieldLevel p e opts) = opts"

fun errArr :: "messages \<Rightarrow> string list" where
  "errArr (One e) = [e]"
| "errArr (Many es) = es"

definition overwrite :: "setError_call \<Rightarrow> bool" where
  "overwrite c = (field (se_options_of c) se_overwrite = Some True)"

subsection \<open>splitPath and traversePath\<close>

text \<open>
  Modelled from the spec: \<^verbatim>\<open>splitPath\<close> of \<^verbatim>\<open>stringPath.js\<close> is not among the sources. A
  dotted/bracketed path is split into its segments: the dot and the two brackets
  separate, and no segment is empty.
\<close>

definition separator :: "char \<Rightarrow> bool" where
  "separator ch = (ch = CHR ''.'' \<or> ch = CHR ''['' \<or> ch = CHR '']'')"

fun pieces :: "string \<Rightarrow> string \<Rightarrow> string list" where
  "pieces cur [] = [cur]"
| "pieces cur (ch # rest) =
     (if separator ch then cur # pieces [] rest else pieces (cur @ [ch]) rest)"

definition splitPath :: "string \<Rightarrow> string list" where
  "splitPath path = filter (\<lambda>p. p \<noteq> []) (pieces [] path)"

text \<open>
  Reading \<^verbatim>\<open>parent[key]\<close> in an error tree: an own property, a member inherited from
  \<^verbatim>\<open>Object.prototype\<close> (which is no part of the tree), or \<^verbatim>\<open>undefined\<close>.
\<close>

datatype member = Own errtree | Inherited | Absent

definition read_member :: "ValidationErrors \<Rightarrow> string \<Rightarrow> member" where
  "read_member parent k =
     (case map_of parent k of
        Some t \<Rightarrow> Own t
      | None \<Rightarrow> if k \<in> set object_prototype then Inherited else Absent)"

text \<open>
  What a walk hands to its caller: the object holding the last segment, that segment and
  the value found there. The object is a part of the tree walked, and an assignment to
  it changes the tree: \<open>pd_above\<close> lists the objects above it, the nearest first, each
  with the key under which the next one hangs, and \<open>plug\<close> puts a changed object back.
\<close>

record PathData =
  pd_parent :: ValidationErrors
  pd_key :: string
  pd_value :: member
  pd_above :: "(ValidationErrors \<times> string) list"

fun plug :: "(ValidationErrors \<times> string) list \<Rightarrow> ValidationErrors \<Rightarrow> ValidationErrors" where
  "plug [] ob = ob"
| "plug ((p, k) # ctx) ob = plug ctx (AList.update k (Node ob) p)"

text \<open>
  A walk ends at its leaf, or with \<^verbatim>\<open>undefined\<close> (the tree as the modifier left it is
  kept), or it leaves the tree: the path goes on in an array of messages or in a member
  inherited from \<^verbatim>\<open>Object.prototype\<close>. JavaScript then reads and writes properties of
  that array, of \<^verbatim>\<open>Object.prototype\<close> or of one of its functions, which no value of
  \<^verbatim>\<open>ValidationErrors\<close> describes.
\<close>

datatype walk = AtLeaf PathData | NoLeaf ValidationErrors | Outside

text \<open>
  Modelled from the spec: \<^verbatim>\<open>traversePath\<close> of \<^verbatim>\<open>traversal.js\<close> is not among the sources.
  It visits the segments in order. At every segment but the last the modifier is called
  with the parent, the key and the value; the walk goes on in the value it returns and
  ends when that is \<^verbatim>\<open>undefined\<close>. At the last segment the walk returns the parent, the
  key and the value. An empty path has no leaf.
\<close>

fun traversePath ::
  "(ValidationErrors \<Rightarrow> string \<Rightarrow> member \<Rightarrow> ValidationErrors \<times> member) \<Rightarrow>
   (ValidationErrors \<times> string) list \<Rightarrow> ValidationErrors \<Rightarrow> string list \<Rightarrow> walk" where
  "traversePath modifier ctx parent [] = NoLeaf (plug ctx parent)"
| "traversePath modifier ctx parent [k] =
     AtLeaf \<lparr> pd_parent = parent, pd_key = k, pd_value = read_member parent k, pd_above = ctx \<rparr>"
| "traversePath modifier ctx parent (k # k' # ks) =
     (case modifier parent k (read_member parent k) of
        (parent', Absent) \<Rightarrow> NoLeaf (plug ctx parent')
      | (parent', Own (Node child)) \<Rightarrow> traversePath modifier ((parent', k) # ctx) child (k' # ks)
      | (parent', Own (Leaf xs)) \<Rightarrow> Outside
      | (parent', Inherited) \<Rightarrow> Outside)"

subsection \<open>The function\<close>

text \<open>
  The modifier of lines 258 to 261: an object is created where the value is undefined,
  and what \<^verbatim>\<open>parent[key]\<close> then reads is returned. An inherited member is not undefined:
  nothing is created and the member is returned.
\<close>

definition create_missing ::
  "ValidationErrors \<Rightarrow> string \<Rightarrow> member \<Rightarrow> ValidationErrors \<times> member" where
  "create_missing parent k v =
     (let parent' = (if v = Absent then AList.update k (Node []) parent else parent)
      in (parent', read_member parent' k))"

text \<open>
  What \<^verbatim>\<open>setError\<close> does: it returns, or it throws a \<^verbatim>\<open>TypeError\<close> (\<^verbatim>\<open>concat\<close> of an
  object that is no array), or it reads and writes outside the error tree (\<open>OffTree\<close>):
  its walk has left the tree, or its last assignment is to an inherited \<^verbatim>\<open>__proto__\<close>,
  which replaces the prototype of the parent. What becomes of the form and of the call
  in that case is not modelled.
\<close>

datatype 'a outcome = Returns 'a | TypeError | OffTree

text \<open>
  Lines 252 to 267, on \<^verbatim>\<open>form.errors\<close>. A form always has its \<^verbatim>\<open>errors\<close>, so line 250
  has nothing to do.
\<close>

definition set_errors :: "ValidationErrors \<Rightarrow> setError_call \<Rightarrow> ValidationErrors outcome" where
  "set_errors errs c =
     (if path_of c = [] then
        (case map_of errs ''_errors'' of
           None \<Rightarrow> Returns (AList.update ''_errors'' (Leaf (errArr (error_of c))) errs)
         | Some (Leaf old) \<Rightarrow>
             Returns (AList.update ''_errors''
               (Leaf (if overwrite c then errArr (error_of c) else old @ errArr (error_of c))) errs)
         | Some (Node ob) \<Rightarrow>
             if overwrite c
             then Returns (AList.update ''_errors'' (Leaf (errArr (error_of c))) errs)
             else TypeError)
      else
        (case traversePath create_missing [] errs (splitPath (path_of c)) of
           NoLeaf errs' \<Rightarrow> Returns errs'
         | Outside \<Rightarrow> OffTree
         | AtLeaf leaf \<Rightarrow>
             if pd_value leaf = Inherited \<and> pd_key leaf = ''__proto__'' then OffTree
             else
               Returns (plug (pd_above leaf)
                 (AList.update (pd_key leaf)
                    (case pd_value leaf of
                       Own (Leaf old) \<Rightarrow>
                         Leaf (if overwrite c then errArr (error_of c)
                               else old @ errArr (error_of c))
                     | _ \<Rightarrow> Leaf (errArr (error_of c)))
                    (pd_parent leaf)))))"

definition setError ::
  "'c SuperValidated \<Rightarrow> setError_call \<Rightarrow> 'c payload ActionFailure outcome" where
  "setError form0 c =
     (case set_errors (form_errors form0) c of
        TypeError \<Rightarrow> TypeError
      | OffTree \<Rightarrow> OffTree
      | Returns errs \<Rightarrow>
          Returns
            ((if field (se_options_of c) se_removeFiles = Some False
              then realFail else failAndRemoveFiles)
               (nullish (field (se_options_of c) se_status) 400)
               \<lparr> form = form0 \<lparr> form_errors := errs, form_valid := False \<rparr> \<rparr>))"

subsection \<open>Reading a tree along a path\<close>







section \<open>Files in a payload\<close>

text \<open>Some property of the value, at any depth, holds a file.\<close>

fun holds_file :: "jsval \<Rightarrow> bool"
  and holds_file_props :: "(string \<times> jsval) list \<Rightarrow> bool"
  and holds_file_elems :: "jsval list \<Rightarrow> bool" where
  "holds_file (JObj ps) = holds_file_props ps"
| "holds_file (JArr xs) = holds_file_elems xs"
| "holds_file v = False"
| "holds_file_props [] = False"
| "holds_file_props ((k, v) # ps) = (isFile v \<or> holds_file v \<or> holds_file_props ps)"
| "holds_file_elems [] = False"
| "holds_file_elems (v # xs) = (isFile v \<or> holds_file v \<or> holds_file_elems xs)"

definition form_holds_file :: "'c SuperValidated \<Rightarrow> bool" where
  "form_holds_file f =
     (holds_file_props (form_data f) \<or>
      (case form_message f of None \<Rightarrow> False | Some m \<Rightarrow> isFile m \<or> holds_file m))"

text \<open>
  What the payload is said to become: every property that holds a file is removed, at
  any depth, every other property stays with its key, in its place; in an array the
  place of a removed file reads as \<^verbatim>\<open>undefined\<close>.
\<close>

function without_files :: "jsval \<Rightarrow> jsval" where
  "without_files (JObj ps) =
     JObj (map (\<lambda>kv. (fst kv, without_files (snd kv))) (filter (\<lambda>kv. \<not> isFile (snd kv)) ps))"
| "without_files (JArr xs) =
     JArr (map (\<lambda>v. if isFile v then JUndefined else without_files v) xs)"
| "without_files JUndefined = JUndefined"
| "without_files JNull = JNull"
| "without_files (JBool b) = JBool b"
| "without_files (JNum n) = JNum n"
| "without_files (JStr s) = JStr s"
| "without_files (JFile f) = JFile f"
| "without_files (JInherited k) = JInherited k"
  by pat_completeness auto
termination
proof (relation "measure size")
  show "wf (measure size)" by simp
next
  fix ps :: "(string \<times> jsval) list" and kv
  assume "kv \<in> set (filter (\<lambda>kv. \<not> isFile (snd kv)) ps)"
  then have "kv \<in> set ps" by simp
  then have "size (snd kv) < Suc (size_list (size_prod (\<lambda>x. 0) size) ps)"
    by (induction ps) (auto simp: less_Suc_eq_le)
  then show "(snd kv, JObj ps) \<in> measure size" by simp
next
  fix xs :: "jsval list" and v
  assume "v \<in> set xs"
  then have "size v < Suc (size_list size xs)"
    by (induction xs) (auto simp: less_Suc_eq_le)
  then show "(v, JArr xs) \<in> measure size" by simp
qed

fun result_payload :: "'c message_result \<Rightarrow> 'c payload" where
  "result_payload (Plain p) = p"
| "result_payload (Failed a) = failure_data a"

section \<open>Sample inputs\<close>

text \<open>
  Inputs on which the theorems below are exercised. The sample helpers stand in for the
  imported functions on these inputs only: a plain object is parsed into itself, the
  parsed properties are laid over the defaults, every issue becomes one message under
  its key, and data without issues is returned as it is. The posting helpers parse an id
  and a posted flag out of the request as well. The sample adapter accepts an object
  whose \<^verbatim>\<open>name\<close> is a string; its schema declares \<^verbatim>\<open>name\<close> alone and allows no other
  property. The open adapter is the same but for its schema, which says nothing about
  other properties.
\<close>

definition sample_helpers :: "(obj, string \<times> string) helpers" where
  "sample_helpers =
     \<lparr> parseRequest = (\<lambda>d js opts. \<lparr> parsed_id = None, parsed_data = d, parsed_posted = False \<rparr>),
       mergeDefaults =
         (\<lambda>p d. case p of None \<Rightarrow> d
                 | Some ob \<Rightarrow> foldl (\<lambda>acc kv. AList.update (fst kv) (snd kv) acc) d ob),
       mapErrors = (\<lambda>issues sh. map (\<lambda>i. (fst i, Leaf [snd i])) issues),
       replaceInvalidDefaults = (\<lambda>d defs js issues pre. d) \<rparr>"

definition posting_helpers :: "(obj, string \<times> string) helpers" where
  "posting_helpers =
     sample_helpers
       \<lparr> parseRequest :=
           (\<lambda>d js opts. \<lparr> parsed_id = Some ''k9'', parsed_data = d, parsed_posted = True \<rparr>) \<rparr>"

definition sample_schema :: JSONSchema where
  "sample_schema =
     \<lparr> additionalProperties = Some (BoolSchema False),
       properties = Some [(''name'', ObjSchema None None)] \<rparr>"

definition sample_adapter :: "(string \<times> string, unit) ValidationAdapter" where
  "sample_adapter =
     \<lparr> adapter_superFormValidationLibrary = ''custom'',
       adapter_validate =
         (\<lambda>d. case map_of d ''name'' of
                Some (JStr s) \<Rightarrow> Success d
              | _ \<Rightarrow> Failure [(''name'', ''Expected a string'')]),
       adapter_jsonSchema = sample_schema,
       adapter_defaults = [(''name'', JStr [])],
       adapter_constraints = (),
       adapter_shape = SchemaShape [],
       adapter_id = ''k1'' \<rparr>"

definition open_adapter :: "(string \<times> string, unit) ValidationAdapter" where
  "open_adapter =
     sample_adapter
       \<lparr> adapter_jsonSchema :=
           \<lparr> additionalProperties = None,
             properties = Some [(''name'', ObjSchema None None)] \<rparr> \<rparr>"

definition shaped_adapter :: "(string \<times> string, unit) ValidationAdapter" where
  "shaped_adapter = sample_adapter \<lparr> adapter_shape := SchemaShape [(''tags'', SchemaShape [])] \<rparr>"

definition no_options :: SuperValidateOptions where
  "no_options =
     \<lparr> opt_errors = None, opt_id = None, opt_preprocessed = None, opt_defaults = None,
       opt_jsonSchema = None, opt_strict = None, opt_allowFiles = None \<rparr>"

definition ann_extra :: obj where
  "ann_extra = [(''name'', JStr ''Ann''), (''extra'', JNum 1)]"

definition call_extra :: "(obj, string \<times> string, unit) call" where
  "call_extra = WithData (Some ann_extra) sample_adapter None"

definition call_invalid :: "(obj, string \<times> string, unit) call" where
  "call_invalid = WithData (Some [(''name'', JNum 5)]) sample_adapter None"

definition call_errors_off :: "(obj, string \<times> string, unit) call" where
  "call_errors_off =
     WithData (Some [(''name'', JNum 5)]) sample_adapter
       (Some (no_options \<lparr> opt_errors := Some False \<rparr>))"

definition call_strict :: "(obj, string \<times> string, unit) call" where
  "call_strict =
     WithData (Some [(''extra'', JNum 1)]) sample_adapter
       (Some (no_options \<lparr> opt_strict := Some True \<rparr>))"

definition call_strict_empty :: "(obj, string \<times> string, unit) call" where
  "call_strict_empty =
     WithData None sample_adapter (Some (no_options \<lparr> opt_strict := Some True \<rparr>))"

definition call_defaults :: "(obj, string \<times> string, unit) call" where
  "call_defaults =
     AdapterOnly sample_adapter
       (Some (no_options \<lparr> opt_defaults := Some [(''name'', JStr []), (''extra'', JNum 1)] \<rparr>))"

definition call_shaped :: "(obj, string \<times> string, unit) call" where
  "call_shaped =
     WithData (Some [(''name'', JStr ''Ann'')]) shaped_adapter
       (Some (no_options \<lparr> opt_id := Some ''k2'' \<rparr>))"

definition call_open :: "(obj, string \<times> string, unit) call" where
  "call_open = WithData (Some [(''name'', JNum 5), (''extra'', JNum 1)]) open_adapter None"

definition sample_form :: "unit SuperValidated" where
  "sample_form =
     \<lparr> form_id = ''k1'', form_valid = True, form_posted = True,
       form_errors = [(''name'', Leaf [''Required''])],
       form_data =
         [(''name'', JStr []),
          (''avatar'', JFile ''me.png''),
          (''profile'', JObj [(''cv'', JFile ''cv.pdf''), (''bio'', JStr ''Hi'')]),
          (''photos'', JArr [JFile ''a.png'', JStr ''none''])],
       form_constraints = (), form_message = None, form_shape = None \<rparr>"

definition forbidden :: message_options where
  "forbidden = \<lparr> msg_status = Some 403, msg_removeFiles = None \<rparr>"

definition keep_files :: message_options where
  "keep_files = \<lparr> msg_status = None, msg_removeFiles = Some False \<rparr>"

lemmas sv_defs =
  superValidate_def status_def validate_call_def valid_def errors_def dataWithDefaults_def
  outputData_def parsedData_def addErrors_def parsed_def jsonSchema_def defaults_def strict_def
  field_def nullish_def strip_step_def has_property_def get_property_def set_property_def
  object_prototype_def

lemmas sample_defs = sample_helpers_def posting_helpers_def sample_schema_def sample_adapter_def
  open_adapter_def shaped_adapter_def no_options_def ann_extra_def

lemmas call_defs = call_extra_def call_invalid_def call_errors_off_def call_strict_def
  call_strict_empty_def call_defaults_def call_shaped_def call_open_def


section \<open>What superValidate returns\<close>

text \<open>
  The theorems of this section are about a call \<open>c\<close> of either overload: with data \<open>d\<close>,
  an adapter \<open>a\<close> and options \<open>opts\<close>, or, when there is no data, with the adapter and
  the options alone. Each is stated in the arguments themselves:
  \<^item> \<open>p\<close> is what \<^verbatim>\<open>parseRequest\<close> returns for the data, the adapter's JSON schema and
    the options;
  \<^item> \<open>strictly\<close> says that \<^verbatim>\<open>options.strict\<close> is true;
  \<^item> \<open>wanted\<close> says that errors are to be added: \<^verbatim>\<open>options.errors\<close> when it is given,
    and otherwise strict mode or parsed data;
  \<^item> \<open>defs\<close> are the defaults: \<^verbatim>\<open>options.defaults\<close> when given, else the adapter's;
  \<^item> \<open>passed\<close> is the data handed to \<^verbatim>\<open>validator.validate\<close>.
\<close>

subsection \<open>The constants of the function in its arguments\<close>

lemma spelled:
  assumes "c = WithData d a opts \<or> (d = None \<and> c = AdapterOnly a opts)"
  shows "validator_of c = a"
    and "jsonSchema c = adapter_jsonSchema a"
    and "parsed h c = parseRequest h d (adapter_jsonSchema a) opts"
    and "strict c = (case opts of None \<Rightarrow> False | Some s \<Rightarrow> opt_strict s = Some True)"
    and "addErrors h c =
           (case (case opts of None \<Rightarrow> None | Some s \<Rightarrow> opt_errors s) of
              Some b \<Rightarrow> b
            | None \<Rightarrow>
                (case opts of None \<Rightarrow> False | Some s \<Rightarrow> opt_strict s = Some True)
                \<or> parsed_data (parseRequest h d (adapter_jsonSchema a) opts) \<noteq> None)"
    and "defaults c =
           (case (case opts of None \<Rightarrow> None | Some s \<Rightarrow> opt_defaults s) of
              Some x \<Rightarrow> x
            | None \<Rightarrow> adapter_defaults a)"
    and "parsedData h c =
           (if (case opts of None \<Rightarrow> False | Some s \<Rightarrow> opt_strict s = Some True)
            then (case parsed_data (parseRequest h d (adapter_jsonSchema a) opts) of
                    None \<Rightarrow> [] | Some x \<Rightarrow> x)
            else mergeDefaults h (parsed_data (parseRequest h d (adapter_jsonSchema a) opts))
                   (case (case opts of None \<Rightarrow> None | Some s \<Rightarrow> opt_defaults s) of
                      Some x \<Rightarrow> x
                    | None \<Rightarrow> adapter_defaults a))"
    and "field (options_of c) opt_id = (case opts of None \<Rightarrow> None | Some s \<Rightarrow> opt_id s)"
    and "field (options_of c) opt_preprocessed
           = (case opts of None \<Rightarrow> None | Some s \<Rightarrow> opt_preprocessed s)"
proof -
  have c: "data_of c = d" "validator_of c = a" "options_of c = opts"
    using assms by auto
  show "validator_of c = a" by (rule c)
  show j: "jsonSchema c = adapter_jsonSchema a" by (simp add: jsonSchema_def c)
  show p: "parsed h c = parseRequest h d (adapter_jsonSchema a) opts"
    by (simp add: parsed_def j c)
  show s: "strict c = (case opts of None \<Rightarrow> False | Some s \<Rightarrow> opt_strict s = Some True)"
    by (simp add: strict_def field_def c split: option.splits)
  show "addErrors h c =
           (case (case opts of None \<Rightarrow> None | Some s \<Rightarrow> opt_errors s) of
              Some b \<Rightarrow> b
            | None \<Rightarrow>
                (case opts of None \<Rightarrow> False | Some s \<Rightarrow> opt_strict s = Some True)
                \<or> parsed_data (parseRequest h d (adapter_jsonSchema a) opts) \<noteq> None)"
    unfolding addErrors_def p s by (simp add: field_def nullish_def c split: option.splits)
  show f: "defaults c =
           (case (case opts of None \<Rightarrow> None | Some s \<Rightarrow> opt_defaults s) of
              Some x \<Rightarrow> x
            | None \<Rightarrow> adapter_defaults a)"
    by (simp add: defaults_def field_def nullish_def c split: option.splits)
  show "parsedData h c =
           (if (case opts of None \<Rightarrow> False | Some s \<Rightarrow> opt_strict s = Some True)
            then (case parsed_data (parseRequest h d (adapter_jsonSchema a) opts) of
                    None \<Rightarrow> [] | Some x \<Rightarrow> x)
            else mergeDefaults h (parsed_data (parseRequest h d (adapter_jsonSchema a) opts))
                   (case (case opts of None \<Rightarrow> None | Some s \<Rightarrow> opt_defaults s) of
                      Some x \<Rightarrow> x
                    | None \<Rightarrow> adapter_defaults a))"
    unfolding parsedData_def p s f by (simp add: nullish_def split: option.splits)
  show "field (options_of c) opt_id = (case opts of None \<Rightarrow> None | Some s \<Rightarrow> opt_id s)"
    by (simp add: field_def c)
  show "field (options_of c) opt_preprocessed
           = (case opts of None \<Rightarrow> None | Some s \<Rightarrow> opt_preprocessed s)"
    by (simp add: field_def c)
qed

lemma core:
  assumes "validator_of c = a" and "parsed h c = p" and "addErrors h c = wanted"
    and "parsedData h c = passed"
  shows "snd (superValidate h c) = (if parsed_data p \<noteq> None \<or> wanted then [passed] else [])"
    and "form_valid (fst (superValidate h c))
           = ((parsed_data p \<noteq> None \<or> wanted) \<and> success (adapter_validate a passed))"
    and "form_errors (fst (superValidate h c)) =
           (if parsed_data p \<noteq> None \<or> wanted
            then (case adapter_validate a passed of
                    Success x \<Rightarrow> []
                  | Failure issues \<Rightarrow>
                      if wanted then mapErrors h issues (adapter_shape a) else [])
            else [])"
    and "form_posted (fst (superValidate h c)) = parsed_posted p"
    and "form_constraints (fst (superValidate h c)) = adapter_constraints a"
    and "form_message (fst (superValidate h c)) = None"
    and "form_shape (fst (superValidate h c))
           = (if entries (adapter_shape a) = [] then None else Some (adapter_shape a))"
proof -
  have s: "status h c =
             (if parsed_data p \<noteq> None \<or> wanted then (adapter_validate a passed, [passed])
              else (Failure [], []))"
    by (simp add: status_def validate_call_def assms)
  show "snd (superValidate h c) = (if parsed_data p \<noteq> None \<or> wanted then [passed] else [])"
    by (simp add: superValidate_def s)
  show "form_valid (fst (superValidate h c))
           = ((parsed_data p \<noteq> None \<or> wanted) \<and> success (adapter_validate a passed))"
    by (simp add: superValidate_def valid_def s)
  show "form_errors (fst (superValidate h c)) =
           (if parsed_data p \<noteq> None \<or> wanted
            then (case adapter_validate a passed of
                    Success x \<Rightarrow> []
                  | Failure issues \<Rightarrow>
                      if wanted then mapErrors h issues (adapter_shape a) else [])
            else [])"
    by (cases "adapter_validate a passed") (auto simp add: superValidate_def errors_def s assms)
  show "form_posted (fst (superValidate h c)) = parsed_posted p"
    by (simp add: superValidate_def assms)
  show "form_constraints (fst (superValidate h c)) = adapter_constraints a"
    by (simp add: superValidate_def assms)
  show "form_message (fst (superValidate h c)) = None"
    by (simp add: superValidate_def)
  show "form_shape (fst (superValidate h c))
           = (if entries (adapter_shape a) = [] then None else Some (adapter_shape a))"
    by (simp add: superValidate_def assms)
qed

lemma core_id:
  assumes "validator_of c = a" and "parsed h c = p" and "field (options_of c) opt_id = oid"
  shows "form_id (fst (superValidate h c)) =
           (case parsed_id p of
              Some i \<Rightarrow> i
            | None \<Rightarrow> (case oid of Some i \<Rightarrow> i | None \<Rightarrow> adapter_id a))"
  by (simp add: superValidate_def nullish_def assms split: option.splits)

lemma core_reconciled:
  assumes "validator_of c = a" and "jsonSchema c = js" and "parsed h c = p"
    and "strict c = strictly" and "addErrors h c = wanted" and "defaults c = defs"
    and "parsedData h c = passed" and "field (options_of c) opt_preprocessed = pre"
  shows "dataWithDefaults h c =
           (case (if parsed_data p \<noteq> None \<or> wanted then adapter_validate a passed
                  else Failure []) of
              Success x \<Rightarrow> x
            | Failure issues \<Rightarrow>
                replaceInvalidDefaults h
                  (if strictly then mergeDefaults h (Some passed) defs else passed)
                  defs js issues pre)"
proof -
  have s: "fst (status h c) =
             (if parsed_data p \<noteq> None \<or> wanted then adapter_validate a passed else Failure [])"
    by (simp add: status_def validate_call_def assms)
  show ?thesis
    unfolding dataWithDefaults_def s assms by simp
qed

subsection \<open>Stripping the undeclared keys\<close>

lemma set_property_map_of:
  "map_of (set_property k v ob) k' =
     (if k = ''__proto__'' \<and> map_of ob k = None then map_of ob k'
      else if k' = k then Some v else map_of ob k')"
  by (auto simp add: set_property_def update_conv')

lemma set_property_keys: "fst ` set (set_property k v ob) \<subseteq> insert k (fst ` set ob)"
  by (simp add: set_property_def dom_update) blast

lemma strip_step_map_of:
  "map_of acc ''__proto__'' = None \<Longrightarrow>
   map_of (strip_step src acc a) k =
     (if k = a \<and> k \<noteq> ''__proto__'' \<and> has_property src k then Some (get_property src k)
      else map_of acc k)"
  by (auto simp add: strip_step_def set_property_map_of)

lemma strip_map_of:
  "map_of acc ''__proto__'' = None \<Longrightarrow>
   map_of (foldl (strip_step src) acc ks) k =
     (if k \<in> set ks \<and> k \<noteq> ''__proto__'' \<and> has_property src k then Some (get_property src k)
      else map_of acc k)"
proof (induction ks arbitrary: acc)
  case Nil
  show ?case by simp
next
  case (Cons a ks)
  have p: "map_of (strip_step src acc a) ''__proto__'' = None"
    using Cons.prems by (simp add: strip_step_map_of)
  show ?case
    using Cons.prems by (auto simp add: Cons.IH [OF p] strip_step_map_of)
qed

lemma strip_plain:
  assumes "k \<notin> set object_prototype"
  shows "map_of (foldl (strip_step src) [] ks) k = (if k \<in> set ks then map_of src k else None)"
proof -
  have "k \<noteq> ''__proto__''" using assms by (auto simp add: object_prototype_def)
  then show ?thesis
    using assms by (simp add: strip_map_of has_property_def get_property_def split: option.splits)
qed

lemma strip_step_keys:
  "fst ` set (strip_step src acc a) \<subseteq> insert a (fst ` set acc)"
  using set_property_keys [of a "get_property src a" acc] by (auto simp add: strip_step_def)

lemma strip_keys:
  "fst ` set (foldl (strip_step src) acc ks) \<subseteq> fst ` set acc \<union> set ks"
proof (induction ks arbitrary: acc)
  case Nil
  show ?case by simp
next
  case (Cons a ks)
  have "fst ` set (foldl (strip_step src) (strip_step src acc a) ks)
          \<subseteq> fst ` set (strip_step src acc a) \<union> set ks"
    by (rule Cons.IH)
  also have "\<dots> \<subseteq> insert a (fst ` set acc) \<union> set ks"
    using strip_step_keys [of src acc a] by blast
  finally show ?case by auto
qed

lemma core_data:
  assumes "jsonSchema c = js" and "dataWithDefaults h c = reconciled"
  shows "additionalProperties js \<noteq> Some (BoolSchema False) \<Longrightarrow>
           form_data (fst (superValidate h c)) = reconciled"
    and "additionalProperties js = Some (BoolSchema False) \<Longrightarrow>
           fst ` set (form_data (fst (superValidate h c)))
             \<subseteq> fst ` set (case properties js of None \<Rightarrow> [] | Some ps \<Rightarrow> ps)"
    and "additionalProperties js = Some (BoolSchema False) \<Longrightarrow> k \<notin> set object_prototype \<Longrightarrow>
           map_of (form_data (fst (superValidate h c))) k =
             (if k \<in> fst ` set (case properties js of None \<Rightarrow> [] | Some ps \<Rightarrow> ps)
              then map_of reconciled k else None)"
proof -
  show "additionalProperties js \<noteq> Some (BoolSchema False) \<Longrightarrow>
           form_data (fst (superValidate h c)) = reconciled"
    by (simp add: superValidate_def outputData_def assms)
  show "additionalProperties js = Some (BoolSchema False) \<Longrightarrow>
           fst ` set (form_data (fst (superValidate h c)))
             \<subseteq> fst ` set (case properties js of None \<Rightarrow> [] | Some ps \<Rightarrow> ps)"
    using strip_keys [of reconciled "[]"
        "map fst (case properties js of None \<Rightarrow> [] | Some ps \<Rightarrow> ps)"]
    by (simp add: superValidate_def outputData_def assms nullish_def)
  show "additionalProperties js = Some (BoolSchema False) \<Longrightarrow> k \<notin> set object_prototype \<Longrightarrow>
           map_of (form_data (fst (superValidate h c))) k =
             (if k \<in> fst ` set (case properties js of None \<Rightarrow> [] | Some ps \<Rightarrow> ps)
              then map_of reconciled k else None)"
    by (simp add: superValidate_def outputData_def assms nullish_def strip_plain)
qed

text \<open>
  Claim C8. When the JSON schema of the adapter has \<^verbatim>\<open>additionalProperties === false\<close>,
  every key of the data that \<^verbatim>\<open>superValidate\<close> returns is a key of the schema's
  \<^verbatim>\<open>properties\<close>, so the keys of the reconciled data that the schema does not declare
  are stripped; and under a declared key (the names of the members of
  \<^verbatim>\<open>Object.prototype\<close> aside) the data holds what the reconciled data holds there. When
  \<^verbatim>\<open>additionalProperties\<close> is anything else, the reconciled data is returned as it is.
  The reconciled data is the validated output when validation succeeds and
  \<^verbatim>\<open>replaceInvalidDefaults\<close> of the data, the defaults, the schema, the issues and the
  preprocessed fields when it does not.
\<close>

theorem undeclared_keys_stripped:
  assumes "c = WithData d a opts \<or> (d = None \<and> c = AdapterOnly a opts)"
  shows "(let p = parseRequest h d (adapter_jsonSchema a) opts;
              strictly = (case opts of None \<Rightarrow> False | Some s \<Rightarrow> opt_strict s = Some True);
              wanted =
                (case (case opts of None \<Rightarrow> None | Some s \<Rightarrow> opt_errors s) of
                   Some b \<Rightarrow> b
                 | None \<Rightarrow> strictly \<or> parsed_data p \<noteq> None);
              defs =
                (case (case opts of None \<Rightarrow> None | Some s \<Rightarrow> opt_defaults s) of
                   Some x \<Rightarrow> x
                 | None \<Rightarrow> adapter_defaults a);
              passed =
                (if strictly then (case parsed_data p of None \<Rightarrow> [] | Some x \<Rightarrow> x)
                 else mergeDefaults h (parsed_data p) defs);
              reconciled =
                (case (if parsed_data p \<noteq> None \<or> wanted then adapter_validate a passed
                       else Failure []) of
                   Success x \<Rightarrow> x
                 | Failure issues \<Rightarrow>
                     replaceInvalidDefaults h
                       (if strictly then mergeDefaults h (Some passed) defs else passed)
                       defs (adapter_jsonSchema a) issues
                       (case opts of None \<Rightarrow> None | Some s \<Rightarrow> opt_preprocessed s));
              declared =
                fst ` set (case properties (adapter_jsonSchema a) of None \<Rightarrow> [] | Some ps \<Rightarrow> ps);
              out = form_data (fst (superValidate h c))
          in (additionalProperties (adapter_jsonSchema a) = Some (BoolSchema False) \<longrightarrow>
                fst ` set out \<subseteq> declared
                \<and> (\<forall>k \<in> declared. k \<notin> set object_prototype \<longrightarrow>
                      map_of out k = map_of reconciled k))
           \<and> (additionalProperties (adapter_jsonSchema a) \<noteq> Some (BoolSchema False) \<longrightarrow>
                out = reconciled))"
proof -
  note r = core_reconciled [OF spelled(1,2,3,4,5,6,7,9) [OF assms], of h]
  note s = spelled(2) [OF assms]
  show ?thesis
    unfolding Let_def
    using core_data(1) [OF s r] core_data(2) [OF s r] core_data(3) [OF s r]
    by simp
qed

text \<open>
  On the sample call with an undeclared property \<^verbatim>\<open>extra\<close>, where the schema is closed:
  the data returned has the key \<^verbatim>\<open>name\<close> only, with the value that was validated. With
  the open schema and a \<^verbatim>\<open>name\<close> that fails validation, the merged data comes back whole.
\<close>

theorem undeclared_keys_stripped_witness:
  "additionalProperties (adapter_jsonSchema sample_adapter) = Some (BoolSchema False)
   \<and> fst ` set (form_data (fst (superValidate sample_helpers call_extra))) \<subseteq> {''name''}
   \<and> map_of (form_data (fst (superValidate sample_helpers call_extra))) ''name''
       = Some (JStr ''Ann'')
   \<and> additionalProperties (adapter_jsonSchema open_adapter) \<noteq> Some (BoolSchema False)
   \<and> form_data (fst (superValidate sample_helpers call_open))
       = [(''name'', JNum 5), (''extra'', JNum 1)]"
proof -
  have 1: "call_extra = WithData (Some ann_extra) sample_adapter None
           \<or> (Some ann_extra = None \<and> call_extra = AdapterOnly sample_adapter None)"
    by (simp add: call_extra_def)
  have 2: "call_open = WithData (Some [(''name'', JNum 5), (''extra'', JNum 1)]) open_adapter None
           \<or> (Some [(''name'', JNum 5), (''extra'', JNum 1)] = None
              \<and> call_open = AdapterOnly open_adapter None)"
    by (simp add: call_open_def)
  show ?thesis
    using undeclared_keys_stripped [OF 1, of sample_helpers]
      undeclared_keys_stripped [OF 2, of sample_helpers]
    by (simp add: call_defs sv_defs sample_defs)
qed

text \<open>
  Line 144 tests the key with \<^verbatim>\<open>in\<close>: a declared key that the data only inherits is
  copied with the inherited member. Here the closed schema declares \<^verbatim>\<open>constructor\<close>
  beside \<^verbatim>\<open>name\<close>, and the data holds \<^verbatim>\<open>name\<close> alone.
\<close>

lemma inherited_member_copied:
  "foldl (strip_step [(''name'', JStr ''Ann'')]) [] [''name'', ''constructor'', ''__proto__'']
     = [(''name'', JStr ''Ann''), (''constructor'', JInherited ''constructor'')]"
  by (simp add: strip_step_def has_property_def get_property_def set_property_def
        object_prototype_def)

subsection \<open>The errors\<close>

text \<open>
  Claim C2, as amended. Errors are wanted when \<^verbatim>\<open>options.errors\<close> is true or, when that
  option is not given, in strict mode or when data was parsed; an \<^verbatim>\<open>options.errors\<close> of
  false means they are not wanted, whatever the mode and the data. When validation fails
  and errors are wanted, the \<^verbatim>\<open>errors\<close> of the result are \<^verbatim>\<open>mapErrors\<close> of the issues the
  adapter returned and the adapter's shape; when validation succeeds, or errors are not
  wanted, or nothing was validated, they are the empty object.
\<close>

theorem errors_of_result:
  assumes "c = WithData d a opts \<or> (d = None \<and> c = AdapterOnly a opts)"
  shows "(let p = parseRequest h d (adapter_jsonSchema a) opts;
              strictly = (case opts of None \<Rightarrow> False | Some s \<Rightarrow> opt_strict s = Some True);
              wanted =
                (case (case opts of None \<Rightarrow> None | Some s \<Rightarrow> opt_errors s) of
                   Some b \<Rightarrow> b
                 | None \<Rightarrow> strictly \<or> parsed_data p \<noteq> None);
              defs =
                (case (case opts of None \<Rightarrow> None | Some s \<Rightarrow> opt_defaults s) of
                   Some x \<Rightarrow> x
                 | None \<Rightarrow> adapter_defaults a);
              passed =
                (if strictly then (case parsed_data p of None \<Rightarrow> [] | Some x \<Rightarrow> x)
                 else mergeDefaults h (parsed_data p) defs)
          in form_errors (fst (superValidate h c)) =
               (if parsed_data p \<noteq> None \<or> wanted
                then (case adapter_validate a passed of
                        Success x \<Rightarrow> []
                      | Failure issues \<Rightarrow>
                          if wanted then mapErrors h issues (adapter_shape a) else [])
                else []))"
  unfolding Let_def
  by (rule core(3) [OF spelled(1,3,5,7) [OF assms]])

text \<open>
  A \<^verbatim>\<open>name\<close> that is a number fails validation: with no options the one issue is mapped
  under \<^verbatim>\<open>name\<close>, with \<^verbatim>\<open>errors: false\<close> the errors are empty. A valid \<^verbatim>\<open>name\<close> gives no
  errors.
\<close>

theorem errors_of_result_witness:
  "adapter_validate sample_adapter [(''name'', JNum 5)] = Failure [(''name'', ''Expected a string'')]
   \<and> form_errors (fst (superValidate sample_helpers call_invalid))
       = [(''name'', Leaf [''Expected a string''])]
   \<and> form_errors (fst (superValidate sample_helpers call_errors_off)) = []
   \<and> form_errors (fst (superValidate sample_helpers call_extra)) = []"
proof -
  have 1: "call_invalid = WithData (Some [(''name'', JNum 5)]) sample_adapter None
           \<or> (Some [(''name'', JNum 5)] = None \<and> call_invalid = AdapterOnly sample_adapter None)"
    by (simp add: call_invalid_def)
  have 2: "call_errors_off =
             WithData (Some [(''name'', JNum 5)]) sample_adapter
               (Some (no_options \<lparr> opt_errors := Some False \<rparr>))
           \<or> (Some [(''name'', JNum 5)] = None
              \<and> call_errors_off =
                  AdapterOnly sample_adapter (Some (no_options \<lparr> opt_errors := Some False \<rparr>)))"
    by (simp add: call_errors_off_def)
  have 3: "call_extra = WithData (Some ann_extra) sample_adapter None
           \<or> (Some ann_extra = None \<and> call_extra = AdapterOnly sample_adapter None)"
    by (simp add: call_extra_def)
  show ?thesis
    using errors_of_result [OF 1, of sample_helpers] errors_of_result [OF 2, of sample_helpers]
      errors_of_result [OF 3, of sample_helpers]
    by (simp add: sample_defs)
qed

text \<open>
  The claim as first stated counts errors as wanted whenever data was parsed. With
  \<^verbatim>\<open>errors: false\<close> in the options, data parsed and validation failing, the errors
  returned are not \<^verbatim>\<open>mapErrors\<close> of the issues.
\<close>

theorem errors_suppressed_counterexample:
  "parsed_data (parsed sample_helpers call_errors_off) \<noteq> None
   \<and> fst (status sample_helpers call_errors_off) = Failure [(''name'', ''Expected a string'')]
   \<and> form_errors (fst (superValidate sample_helpers call_errors_off))
       \<noteq> mapErrors sample_helpers [(''name'', ''Expected a string'')]
           (adapter_shape (validator_of call_errors_off))"
  by (simp add: call_defs sv_defs sample_defs)

subsection \<open>What is validated\<close>



subsection \<open>The data\<close>

text \<open>
  Claim C4, as amended. The reconciled data is the adapter's validated output when
  validation succeeds; when it fails, or nothing was validated, it is
  \<^verbatim>\<open>replaceInvalidDefaults\<close> of the data (in strict mode merged with the defaults at this
  point, for the first time), the defaults, the JSON schema, the issues and the
  preprocessed fields. The \<^verbatim>\<open>data\<close> of the result is the reconciled data when
  \<^verbatim>\<open>additionalProperties\<close> of the schema is not false. When it is false, \<^verbatim>\<open>data\<close> has no
  key but those the schema declares, and (the names of the members of
  \<^verbatim>\<open>Object.prototype\<close> aside) it holds under a declared key what the reconciled data
  holds there, and nothing under any other.
\<close>

theorem reconciled_data:
  assumes "c = WithData d a opts \<or> (d = None \<and> c = AdapterOnly a opts)"
  shows "(let p = parseRequest h d (adapter_jsonSchema a) opts;
              strictly = (case opts of None \<Rightarrow> False | Some s \<Rightarrow> opt_strict s = Some True);
              wanted =
                (case (case opts of None \<Rightarrow> None | Some s \<Rightarrow> opt_errors s) of
                   Some b \<Rightarrow> b
                 | None \<Rightarrow> strictly \<or> parsed_data p \<noteq> None);
              defs =
                (case (case opts of None \<Rightarrow> None | Some s \<Rightarrow> opt_defaults s) of
                   Some x \<Rightarrow> x
                 | None \<Rightarrow> adapter_defaults a);
              passed =
                (if strictly then (case parsed_data p of None \<Rightarrow> [] | Some x \<Rightarrow> x)
                 else mergeDefaults h (parsed_data p) defs);
              reconciled =
                (case (if parsed_data p \<noteq> None \<or> wanted then adapter_validate a passed
                       else Failure []) of
                   Success x \<Rightarrow> x
                 | Failure issues \<Rightarrow>
                     replaceInvalidDefaults h
                       (if strictly then mergeDefaults h (Some passed) defs else passed)
                       defs (adapter_jsonSchema a) issues
                       (case opts of None \<Rightarrow> None | Some s \<Rightarrow> opt_preprocessed s));
              declared =
                fst ` set (case properties (adapter_jsonSchema a) of None \<Rightarrow> [] | Some ps \<Rightarrow> ps);
              out = form_data (fst (superValidate h c))
          in (additionalProperties (adapter_jsonSchema a) \<noteq> Some (BoolSchema False) \<longrightarrow>
                out = reconciled)
           \<and> (additionalProperties (adapter_jsonSchema a) = Some (BoolSchema False) \<longrightarrow>
                fst ` set out \<subseteq> declared
                \<and> (\<forall>k. k \<notin> set object_prototype \<longrightarrow>
                      map_of out k = (if k \<in> declared then map_of reconciled k else None))))"
proof -
  note r = core_reconciled [OF spelled(1,2,3,4,5,6,7,9) [OF assms], of h]
  note s = spelled(2) [OF assms]
  show ?thesis
    unfolding Let_def
    using core_data(1) [OF s r] core_data(2) [OF s r] core_data(3) [OF s r]
    by simp
qed

text \<open>
  The sample schema is closed: of the validated \<^verbatim>\<open>name\<close> and \<^verbatim>\<open>extra\<close> the data returned
  keeps \<^verbatim>\<open>name\<close>. With the open schema, a failed validation returns the merged data as
  the sample \<^verbatim>\<open>replaceInvalidDefaults\<close> leaves it.
\<close>

theorem reconciled_data_witness:
  "additionalProperties (adapter_jsonSchema sample_adapter) = Some (BoolSchema False)
   \<and> adapter_validate sample_adapter ann_extra = Success ann_extra
   \<and> map_of (form_data (fst (superValidate sample_helpers call_extra))) ''name''
       = Some (JStr ''Ann'')
   \<and> map_of (form_data (fst (superValidate sample_helpers call_extra))) ''extra'' = None
   \<and> additionalProperties (adapter_jsonSchema open_adapter) \<noteq> Some (BoolSchema False)
   \<and> form_data (fst (superValidate sample_helpers call_open))
       = [(''name'', JNum 5), (''extra'', JNum 1)]"
proof -
  have 1: "call_extra = WithData (Some ann_extra) sample_adapter None
           \<or> (Some ann_extra = None \<and> call_extra = AdapterOnly sample_adapter None)"
    by (simp add: call_extra_def)
  have 2: "call_open = WithData (Some [(''name'', JNum 5), (''extra'', JNum 1)]) open_adapter None
           \<or> (Some [(''name'', JNum 5), (''extra'', JNum 1)] = None
              \<and> call_open = AdapterOnly open_adapter None)"
    by (simp add: call_open_def)
  show ?thesis
    using reconciled_data [OF 1, of sample_helpers] reconciled_data [OF 2, of sample_helpers]
    by (simp add: call_defs sv_defs sample_defs)
qed

text \<open>
  The claim as first stated has the \<^verbatim>\<open>data\<close> of the result equal to the validated output
  whenever validation succeeds. Here validation succeeds with \<^verbatim>\<open>name\<close> and \<^verbatim>\<open>extra\<close>, and
  the data returned is another object.
\<close>

theorem data_stripped_counterexample:
  "fst (status sample_helpers call_extra) = Success [(''name'', JStr ''Ann''), (''extra'', JNum 1)]
   \<and> form_data (fst (superValidate sample_helpers call_extra))
       \<noteq> [(''name'', JStr ''Ann''), (''extra'', JNum 1)]"
  by (simp add: call_defs sv_defs sample_defs)

subsection \<open>The valid flag\<close>

text \<open>
  Claim C5, as amended. Whenever \<^verbatim>\<open>validator.validate\<close> is called (data was parsed, or
  errors are wanted), it is called once, and \<^verbatim>\<open>valid\<close> of the result is the \<^verbatim>\<open>success\<close> it
  returns for the data it is called with: the parsed data merged with the defaults in
  non-strict mode, the parsed data alone (or the empty object) in strict mode.
\<close>

theorem valid_flag:
  assumes "parsed_data (parsed h c) \<noteq> None \<or> addErrors h c"
  shows "(let passed =
                (if field (options_of c) opt_strict = Some True
                 then (case parsed_data (parsed h c) of None \<Rightarrow> [] | Some d \<Rightarrow> d)
                 else mergeDefaults h (parsed_data (parsed h c)) (defaults c))
          in snd (superValidate h c) = [passed]
           \<and> form_valid (fst (superValidate h c))
               = success (adapter_validate (validator_of c) passed))"
  using assms
  by (simp add: superValidate_def valid_def status_def validate_call_def parsedData_def
        strict_def nullish_def Let_def split: option.splits)

theorem valid_flag_witness:
  "(parsed_data (parsed sample_helpers call_strict) \<noteq> None)
   \<and> snd (superValidate sample_helpers call_strict) = [[(''extra'', JNum 1)]]
   \<and> form_valid (fst (superValidate sample_helpers call_strict))
       = success (adapter_validate (validator_of call_strict) [(''extra'', JNum 1)])"
proof -
  have p: "parsed_data (parsed sample_helpers call_strict) \<noteq> None
           \<or> addErrors sample_helpers call_strict"
    by (simp add: call_defs sv_defs sample_defs)
  show ?thesis
    using valid_flag [OF p]
    by (simp add: call_defs sv_defs sample_defs)
qed

text \<open>
  The claim as first stated takes the \<^verbatim>\<open>success\<close> of validating the merged data. In
  strict mode the parsed object, which has no \<^verbatim>\<open>name\<close>, is validated without the
  defaults: merged with them it would pass, and the result is not valid.
\<close>

theorem valid_strict_counterexample:
  "parsed_data (parsed sample_helpers call_strict) \<noteq> None
   \<and> success (adapter_validate (validator_of call_strict)
        (mergeDefaults sample_helpers (parsed_data (parsed sample_helpers call_strict))
           (defaults call_strict)))
   \<and> \<not> form_valid (fst (superValidate sample_helpers call_strict))"
  by (simp add: call_defs sv_defs sample_defs)

subsection \<open>The fields of the result\<close>

text \<open>
  Claim C6. The result has \<^verbatim>\<open>id\<close>, \<^verbatim>\<open>valid\<close>, \<^verbatim>\<open>posted\<close>, \<^verbatim>\<open>errors\<close>, \<^verbatim>\<open>data\<close> and
  \<^verbatim>\<open>constraints\<close> (the fields every value of the record has), no \<^verbatim>\<open>message\<close>, and a
  \<^verbatim>\<open>shape\<close> exactly when the adapter's shape has a key. The \<^verbatim>\<open>id\<close> is the one
  \<^verbatim>\<open>parseRequest\<close> found, else the one of the options, else the adapter's; \<^verbatim>\<open>posted\<close> is
  the flag \<^verbatim>\<open>parseRequest\<close> returned; \<^verbatim>\<open>constraints\<close> and \<^verbatim>\<open>shape\<close> are the adapter's. What
  \<^verbatim>\<open>valid\<close>, \<^verbatim>\<open>errors\<close> and \<^verbatim>\<open>data\<close> hold is the matter of the theorems above.
\<close>

theorem result_fields:
  assumes "c = WithData d a opts \<or> (d = None \<and> c = AdapterOnly a opts)"
  shows "(let p = parseRequest h d (adapter_jsonSchema a) opts;
              r = fst (superValidate h c)
          in form_id r =
               (case parsed_id p of
                  Some i \<Rightarrow> i
                | None \<Rightarrow>
                    (case (case opts of None \<Rightarrow> None | Some s \<Rightarrow> opt_id s) of
                       Some i \<Rightarrow> i
                     | None \<Rightarrow> adapter_id a))
           \<and> form_posted r = parsed_posted p
           \<and> form_constraints r = adapter_constraints a
           \<and> form_message r = None
           \<and> form_shape r =
               (if entries (adapter_shape a) = [] then None else Some (adapter_shape a)))"
  unfolding Let_def
  using core_id [OF spelled(1,3,8) [OF assms], of h]
    core(4,5,6,7) [OF spelled(1,3,5,7) [OF assms], of h]
  by (intro conjI)

text \<open>
  The id parsed from the request goes before the id of the options, that one before the
  adapter's; the posted flag is the parsed one; a shape with a key is handed on, an empty
  one is not.
\<close>

theorem result_fields_witness:
  "form_id (fst (superValidate posting_helpers call_shaped)) = ''k9''
   \<and> form_posted (fst (superValidate posting_helpers call_shaped))
   \<and> form_id (fst (superValidate sample_helpers call_shaped)) = ''k2''
   \<and> \<not> form_posted (fst (superValidate sample_helpers call_shaped))
   \<and> form_constraints (fst (superValidate sample_helpers call_shaped)) = ()
   \<and> form_message (fst (superValidate sample_helpers call_shaped)) = None
   \<and> form_shape (fst (superValidate sample_helpers call_shaped))
       = Some (SchemaShape [(''tags'', SchemaShape [])])
   \<and> form_shape (fst (superValidate sample_helpers call_extra)) = None
   \<and> form_id (fst (superValidate sample_helpers call_extra)) = ''k1''"
proof -
  have 1: "call_shaped =
             WithData (Some [(''name'', JStr ''Ann'')]) shaped_adapter
               (Some (no_options \<lparr> opt_id := Some ''k2'' \<rparr>))
           \<or> (Some [(''name'', JStr ''Ann'')] = None
              \<and> call_shaped =
                  AdapterOnly shaped_adapter (Some (no_options \<lparr> opt_id := Some ''k2'' \<rparr>)))"
    by (simp add: call_shaped_def)
  have 2: "call_extra = WithData (Some ann_extra) sample_adapter None
           \<or> (Some ann_extra = None \<and> call_extra = AdapterOnly sample_adapter None)"
    by (simp add: call_extra_def)
  show ?thesis
    using result_fields [OF 1, of posting_helpers] result_fields [OF 1, of sample_helpers]
      result_fields [OF 2, of sample_helpers]
    by (simp add: sample_defs Let_def)
qed

subsection \<open>No data\<close>

text \<open>
  Claim C9, as amended. Let \<^verbatim>\<open>superValidate\<close> be called without data (or with an adapter
  alone), not in strict mode and without \<^verbatim>\<open>errors: true\<close>, and let \<^verbatim>\<open>parseRequest\<close>
  parse no data out of that call. Then \<^verbatim>\<open>validator.validate\<close> is not called, the result
  is not valid and its errors are the empty object. Its data is
  \<^verbatim>\<open>replaceInvalidDefaults\<close> of the merged defaults, with no issues, when
  \<^verbatim>\<open>additionalProperties\<close> of the schema is not false. When it is false, the data has no
  key but those the schema declares, and (the names of the members of
  \<^verbatim>\<open>Object.prototype\<close> aside) it holds under a declared key what that object holds there,
  and nothing under any other.
\<close>

theorem no_data_no_validation:
  assumes "c = WithData None a opts \<or> c = AdapterOnly a opts"
    and "parsed_data (parseRequest h None (adapter_jsonSchema a) opts) = None"
    and "(case opts of None \<Rightarrow> None | Some s \<Rightarrow> opt_strict s) \<noteq> Some True"
    and "(case opts of None \<Rightarrow> None | Some s \<Rightarrow> opt_errors s) \<noteq> Some True"
  shows "(let r = fst (superValidate h c);
              js = adapter_jsonSchema a;
              defs =
                (case (case opts of None \<Rightarrow> None | Some s \<Rightarrow> opt_defaults s) of
                   Some x \<Rightarrow> x
                 | None \<Rightarrow> adapter_defaults a);
              reconciled =
                replaceInvalidDefaults h (mergeDefaults h None defs) defs js []
                  (case opts of None \<Rightarrow> None | Some s \<Rightarrow> opt_preprocessed s);
              declared = fst ` set (case properties js of None \<Rightarrow> [] | Some ps \<Rightarrow> ps)
          in snd (superValidate h c) = []
           \<and> \<not> form_valid r
           \<and> form_errors r = []
           \<and> (if additionalProperties js = Some (BoolSchema False)
              then fst ` set (form_data r) \<subseteq> declared
                   \<and> (\<forall>k. k \<notin> set object_prototype \<longrightarrow>
                         map_of (form_data r) k =
                           (if k \<in> declared then map_of reconciled k else None))
              else form_data r = reconciled))"
proof -
  have cf: "c = WithData None a opts \<or> (None = None \<and> c = AdapterOnly a opts)"
    using assms(1) by simp
  let ?strictly = "case opts of None \<Rightarrow> False | Some s \<Rightarrow> opt_strict s = Some True"
  let ?wanted =
    "case (case opts of None \<Rightarrow> None | Some s \<Rightarrow> opt_errors s) of
       Some b \<Rightarrow> b
     | None \<Rightarrow> ?strictly \<or> parsed_data (parseRequest h None (adapter_jsonSchema a) opts) \<noteq> None"
  have ns: "\<not> ?strictly" using assms(3) by (simp split: option.splits)
  have nw: "\<not> ?wanted" using assms(2,3,4) by (auto split: option.splits)
  note k = core [OF spelled(1,3,5,7) [OF cf], of h]
  note r = core_reconciled [OF spelled(1,2,3,4,5,6,7,9) [OF cf], of h]
  note s = spelled(2) [OF cf]
  have 1: "snd (superValidate h c) = []" using k(1) assms(2) nw by simp
  have 2: "\<not> form_valid (fst (superValidate h c))" using k(2) assms(2) nw by simp
  have 3: "form_errors (fst (superValidate h c)) = []" using k(3) assms(2) nw by simp
  have 4: "dataWithDefaults h c =
             replaceInvalidDefaults h
               (mergeDefaults h None
                  (case (case opts of None \<Rightarrow> None | Some s \<Rightarrow> opt_defaults s) of
                     Some x \<Rightarrow> x
                   | None \<Rightarrow> adapter_defaults a))
               (case (case opts of None \<Rightarrow> None | Some s \<Rightarrow> opt_defaults s) of
                  Some x \<Rightarrow> x
                | None \<Rightarrow> adapter_defaults a)
               (adapter_jsonSchema a) []
               (case opts of None \<Rightarrow> None | Some s \<Rightarrow> opt_preprocessed s)"
    using r assms(2) nw ns by simp
  show ?thesis
    unfolding Let_def
    using 1 2 3 core_data(1) [OF s 4] core_data(2) [OF s 4] core_data(3) [OF s 4]
    by simp
qed

text \<open>
  An adapter alone, and no data with an adapter: the defaults come back, nothing is
  validated, no errors.
\<close>

theorem no_data_no_validation_witness:
  "parsed_data (parseRequest sample_helpers None (adapter_jsonSchema sample_adapter) None) = None
   \<and> snd (superValidate sample_helpers (AdapterOnly sample_adapter None)) = []
   \<and> \<not> form_valid (fst (superValidate sample_helpers (AdapterOnly sample_adapter None)))
   \<and> form_errors (fst (superValidate sample_helpers (AdapterOnly sample_adapter None))) = []
   \<and> map_of (form_data (fst (superValidate sample_helpers (AdapterOnly sample_adapter None))))
        ''name'' = Some (JStr [])
   \<and> snd (superValidate sample_helpers (WithData None open_adapter None)) = []
   \<and> form_data (fst (superValidate sample_helpers (WithData None open_adapter None)))
       = [(''name'', JStr [])]"
proof -
  let ?c = "AdapterOnly sample_adapter None :: (obj, string \<times> string, unit) call"
  let ?w = "WithData None open_adapter None :: (obj, string \<times> string, unit) call"
  have 1: "?c = WithData None sample_adapter None \<or> ?c = AdapterOnly sample_adapter None"
    by simp
  have 2: "parsed_data (parseRequest sample_helpers None (adapter_jsonSchema sample_adapter) None)
             = None"
    by (simp add: sample_helpers_def)
  have 3: "(case (None :: SuperValidateOptions option) of None \<Rightarrow> None | Some s \<Rightarrow> opt_strict s)
             \<noteq> Some True"
    by simp
  have 4: "(case (None :: SuperValidateOptions option) of None \<Rightarrow> None | Some s \<Rightarrow> opt_errors s)
             \<noteq> Some True"
    by simp
  have 5: "?w = WithData None open_adapter None \<or> ?w = AdapterOnly open_adapter None"
    by simp
  have 6: "parsed_data (parseRequest sample_helpers None (adapter_jsonSchema open_adapter) None)
             = None"
    by (simp add: sample_helpers_def)
  show ?thesis
    using 2 no_data_no_validation [OF 1 2 3 4] no_data_no_validation [OF 5 6 3 4]
    by (simp add: sample_defs object_prototype_def Let_def)
qed

text \<open>
  The claim as first stated has the data equal to the defaults as
  \<^verbatim>\<open>replaceInvalidDefaults\<close> returns them. With defaults of the options that hold a key the
  closed schema does not declare, no data, no strict mode and no \<^verbatim>\<open>errors\<close> option,
  nothing is validated and the data returned is another object.
\<close>

theorem defaults_stripped_counterexample:
  "data_of call_defaults = None
   \<and> \<not> strict call_defaults
   \<and> field (options_of call_defaults) opt_errors \<noteq> Some True
   \<and> snd (superValidate sample_helpers call_defaults) = []
   \<and> form_data (fst (superValidate sample_helpers call_defaults))
       \<noteq> replaceInvalidDefaults sample_helpers
           (mergeDefaults sample_helpers None (defaults call_defaults)) (defaults call_defaults)
           (jsonSchema call_defaults) [] (field (options_of call_defaults) opt_preprocessed)"
  by (simp add: call_defs sv_defs sample_defs)

section \<open>What message returns\<close>

lemma removeFiles_not_file: "\<not> isFile v \<Longrightarrow> \<not> isFile (removeFiles v)"
  by (cases v) simp_all

lemma valid_same:
  "form_valid f \<Longrightarrow> f \<lparr> form_valid := True \<rparr> = f"
  "\<not> form_valid f \<Longrightarrow> f \<lparr> form_valid := False \<rparr> = f"
  by (cases f, simp)+

lemma removeFiles_clean:
  "\<not> holds_file (removeFiles v)"
  "\<not> holds_file_props (removeFiles_props ps)"
  "\<not> holds_file_elems (removeFiles_elems xs)"
  by (induction v and ps and xs rule: removeFiles_removeFiles_props_removeFiles_elems.induct)
     (simp_all add: removeFiles_not_file)

text \<open>\<^verbatim>\<open>removeFiles\<close> does what the payload is said to become.\<close>

lemma removeFiles_without_files:
  "removeFiles v = without_files v"
  "removeFiles_props ps =
     map (\<lambda>kv. (fst kv, without_files (snd kv))) (filter (\<lambda>kv. \<not> isFile (snd kv)) ps)"
  "removeFiles_elems xs = map (\<lambda>v. if isFile v then JUndefined else without_files v) xs"
  by (induction v and ps and xs rule: removeFiles_removeFiles_props_removeFiles_elems.induct)
     simp_all

lemma removeFiles_form_clean: "\<not> form_holds_file (removeFiles_form f)"
  by (simp add: form_holds_file_def removeFiles_form_def removeFiles_clean removeFiles_not_file
        split: option.splits)

text \<open>
  Claim C7. \<^verbatim>\<open>message\<close> sets \<^verbatim>\<open>form.valid\<close> to false exactly when \<^verbatim>\<open>options.status\<close> is
  given and is at least 400, and stores the message. It returns the plain \<^verbatim>\<open>{ form }\<close>
  when the form is then valid, and otherwise a failure whose status is
  \<^verbatim>\<open>options.status\<close> when given and 400 when not. Either way the form is handed over as
  it is when \<^verbatim>\<open>options.removeFiles\<close> is false. In every other case the properties that
  hold a file are removed from its data and its message, at any depth, and every other
  property stays as it is (a message that is a file is removed itself): then no property
  of the payload holds a file.
\<close>

theorem message_returns:
  "message f m opts =
     (let st = (case opts of None \<Rightarrow> None | Some s \<Rightarrow> msg_status s);
          keep = ((case opts of None \<Rightarrow> None | Some s \<Rightarrow> msg_removeFiles s) = Some False);
          v = (form_valid f \<and> \<not> (case st of None \<Rightarrow> False | Some n \<Rightarrow> 400 \<le> n));
          f' = f \<lparr> form_valid := v, form_message := Some m \<rparr>;
          cleaned =
            f' \<lparr> form_data :=
                   map (\<lambda>kv. (fst kv, without_files (snd kv)))
                     (filter (\<lambda>kv. \<not> isFile (snd kv)) (form_data f)),
                 form_message := (if isFile m then None else Some (without_files m)) \<rparr>;
          p = \<lparr> form = (if keep then f' else cleaned) \<rparr>
      in if v then Plain p
         else Failed \<lparr> failure_status = (case st of None \<Rightarrow> 400 | Some n \<Rightarrow> n),
                        failure_data = p \<rparr>)
   \<and> ((case opts of None \<Rightarrow> None | Some s \<Rightarrow> msg_removeFiles s) \<noteq> Some False \<longrightarrow>
        \<not> form_holds_file (form (result_payload (message f m opts))))"
proof -
  have c: "removeFiles_form (g \<lparr> form_message := Some m \<rparr>) =
             g \<lparr> form_data :=
                   map (\<lambda>kv. (fst kv, without_files (snd kv)))
                     (filter (\<lambda>kv. \<not> isFile (snd kv)) (form_data g)),
                 form_message := (if isFile m then None else Some (without_files m)) \<rparr>"
    for g :: "'a SuperValidated"
    by (simp add: removeFiles_form_def removeFiles_without_files)
  have h: "\<not> form_holds_file
               (g \<lparr> form_data :=
                      map (\<lambda>kv. (fst kv, without_files (snd kv)))
                        (filter (\<lambda>kv. \<not> isFile (snd kv)) (form_data g)),
                    form_message := (if isFile m then None else Some (without_files m)) \<rparr>)"
    for g :: "'a SuperValidated"
    using removeFiles_form_clean [of "g \<lparr> form_message := Some m \<rparr>"] unfolding c .
  have v: "form_data (f \<lparr> form_valid := b \<rparr>) = form_data f" for b
    by simp
  show ?thesis
  proof (cases opts)
    case None
    then show ?thesis
      using h [of f] h [of "f \<lparr> form_valid := False \<rparr>"]
      by (cases "form_valid f")
        (simp_all add: message_def Let_def field_def nullish_def realFail_def
          failAndRemoveFiles_def removeFiles_payload_def c valid_same)
  next
    case (Some s)
    show ?thesis
    proof (cases "msg_status s")
      case None
      then show ?thesis
        using Some h [of f] h [of "f \<lparr> form_valid := False \<rparr>"]
        by (cases "form_valid f")
          (auto simp add: message_def Let_def field_def nullish_def realFail_def
            failAndRemoveFiles_def removeFiles_payload_def c valid_same)
    next
      case (Some n)
      then show ?thesis
        using \<open>opts = Some s\<close> h [of f] h [of "f \<lparr> form_valid := False \<rparr>"]
        by (cases "form_valid f")
          (auto simp add: message_def Let_def field_def nullish_def realFail_def
            failAndRemoveFiles_def removeFiles_payload_def c valid_same)
    qed
  qed
qed

text \<open>
  A valid form with files at three places of its data, sent with status 403 and no
  \<^verbatim>\<open>removeFiles\<close> option: a failure with status 403, the form no longer valid, the
  message stored, the files gone and everything else in place. Sent with
  \<^verbatim>\<open>removeFiles: false\<close> and no status: the plain payload, the data untouched.
\<close>

theorem message_returns_witness:
  "(case Some forbidden of None \<Rightarrow> None | Some s \<Rightarrow> msg_removeFiles s) \<noteq> Some False
   \<and> message sample_form (JStr ''No access'') (Some forbidden) =
       Failed \<lparr> failure_status = 403,
                failure_data =
                  \<lparr> form =
                      sample_form
                        \<lparr> form_valid := False,
                          form_data :=
                            [(''name'', JStr []),
                             (''profile'', JObj [(''bio'', JStr ''Hi'')]),
                             (''photos'', JArr [JUndefined, JStr ''none''])],
                          form_message := Some (JStr ''No access'') \<rparr> \<rparr> \<rparr>
   \<and> \<not> form_holds_file
         (form (result_payload (message sample_form (JStr ''No access'') (Some forbidden))))
   \<and> message sample_form (JFile ''note.txt'') (Some keep_files) =
       Plain \<lparr> form = sample_form \<lparr> form_message := Some (JFile ''note.txt'') \<rparr> \<rparr>"
  using message_returns [where f = sample_form and m = "JStr ''No access''" and opts = "Some forbidden"]
    message_returns [where f = sample_form and m = "JFile ''note.txt''" and opts = "Some keep_files"]
  by (simp add: sample_form_def forbidden_def keep_files_def form_holds_file_def Let_def)

section \<open>What setError stores\<close>


















text \<open>
  Where the path leaves the tree the model stops: at \<^verbatim>\<open>__proto__.polluted\<close> the code goes
  on in \<^verbatim>\<open>Object.prototype\<close>, at \<^verbatim>\<open>name.first\<close> in the array of messages under \<^verbatim>\<open>name\<close>,
  and at \<^verbatim>\<open>__proto__\<close> it replaces the prototype of the errors.
\<close>

lemma setError_off_tree:
  "setError sample_form (FieldLevel ''__proto__.polluted'' (One ''Too long'') None) = OffTree"
  "setError sample_form (FieldLevel ''name.first'' (One ''Too long'') None) = OffTree"
  "setError sample_form (FieldLevel ''__proto__'' (One ''Too long'') None) = OffTree"
  by (simp_all add: setError_def set_errors_def splitPath_def separator_def sample_form_def
        create_missing_def read_member_def object_prototype_def)

end
